theory Spec2Isabelle
  imports Main "HOL-Library.Multiset"
begin

section \<open>Strings of the page code\<close>

text \<open>
  A name is a JavaScript string. The model covers the strings whose code units are all
  below 256 (ASCII and Latin-1): a \<^typ>\<open>char\<close> stands for the code unit with the same
  number. On these strings \<open>toLowerCase\<close> and \<open>trim\<close> stay inside the range, and
  they are written out below as ECMAScript defines them there.
\<close>

definition isWhiteSpace :: "char \<Rightarrow> bool" where
  \<comment> \<open>WhiteSpace and LineTerminator below 256: TAB, LF, VT, FF, CR, SP, NBSP.\<close>
  "isWhiteSpace c = ((of_char c :: nat) \<in> {9, 10, 11, 12, 13, 32, 160})"

definition isUpperCase :: "char \<Rightarrow> bool" where
  \<comment> \<open>A to Z, and the Latin-1 capitals U+00C0 to U+00DE without the sign U+00D7.\<close>
  "isUpperCase c =
     (let n = (of_char c :: nat)
      in (65 \<le> n \<and> n \<le> 90) \<or> (192 \<le> n \<and> n \<le> 222 \<and> n \<noteq> 215))"

definition lowerChar :: "char \<Rightarrow> char" where
  "lowerChar c = (if isUpperCase c then char_of ((of_char c :: nat) + 32) else c)"

definition toLowerCase :: "string \<Rightarrow> string" where
  "toLowerCase s = map lowerChar s"

definition trim :: "string \<Rightarrow> string" where
  "trim s = rev (dropWhile isWhiteSpace (rev (dropWhile isWhiteSpace s)))"

text \<open>\<open>encodeURIComponent\<close>: the unreserved marks stay, every other code unit is
  written as the percent-escaped bytes of its UTF-8 form (one byte below 128, two bytes
  from 128 to 255).\<close>

definition isUnreserved :: "char \<Rightarrow> bool" where
  "isUnreserved c =
     (let n = (of_char c :: nat)
      in (65 \<le> n \<and> n \<le> 90) \<or> (97 \<le> n \<and> n \<le> 122) \<or> (48 \<le> n \<and> n \<le> 57)
         \<or> n \<in> {45, 95, 46, 33, 126, 42, 39, 40, 41})"

definition hexDigit :: "nat \<Rightarrow> char" where
  "hexDigit d = (if d < 10 then char_of (48 + d) else char_of (55 + d))"

definition percentByte :: "nat \<Rightarrow> string" where
  "percentByte b = [CHR ''%'', hexDigit (b div 16), hexDigit (b mod 16)]"

definition encodeChar :: "char \<Rightarrow> string" where
  "encodeChar c =
     (let n = (of_char c :: nat)
      in if isUnreserved c then [c]
         else if n < 128 then percentByte n
         else percentByte (192 + n div 64) @ percentByte (128 + n mod 64))"

definition encodeURIComponent :: "string \<Rightarrow> string" where
  "encodeURIComponent s = concat (map encodeChar s)"


section \<open>The data of the two JSON files\<close>

record Person =
  person_name :: string
  person_email :: string

text \<open>An entry of \<open>instructor_bios\<close>: the name, and a title and a bio that may be
  missing from the object.\<close>

record BioEntry =
  entry_name :: string
  entry_title :: "string option"
  entry_bio :: "string option"

text \<open>The shapes \<open>canvas-staff.json\<close> has had: an \<open>instructors\<close> array, or an
  \<open>instructor\<close> field holding one object or an array; either field may be missing.\<close>

datatype InstructorField = Absent | Single Person | Many "Person list"

record CanvasStaffData =
  instructors_field :: "Person list option"
  instructor_field :: InstructorField


section \<open>TeachingStaff.tsx\<close>

record InstructorInfo =
  info_bio :: string
  info_title :: string

record InstructorView =
  view_name :: string
  view_title :: "string option"
  view_email :: string
  view_bio :: string
  view_image :: string

definition fallbackInstructor :: InstructorView where
  "fallbackInstructor =
     \<lparr> view_name = ''Niloofar Montazeri'',
       view_title = Some ''Assistant Teaching Professor'',
       view_email = ''nimontaz@ucsc.edu'',
       view_bio = ''My name is Niloofar Montazeri, and I am your instructor for CSE 140. I am an Assistant Teaching Professor at UC Santa Cruz, with previous experience teaching for seven years at UC Riverside. I hold a PhD in Computer Science from the University of Southern California, specializing in Human Language Technologies.'',
       view_image = ''https://images.unsplash.com/photo-1494790108377-be9c29b29330?w=400&h=400&fit=crop'' \<rparr>"

definition getAvatarUrl :: "string \<Rightarrow> string \<Rightarrow> string" where
  "getAvatarUrl name email =
     ''https://ui-avatars.com/api/?name='' @ encodeURIComponent name
       @ ''&background=random&size=400''"

text \<open>The arrow function given to \<open>find\<close>:
  \<^verbatim>\<open>bioEntry.name.toLowerCase().trim() === name.toLowerCase().trim()\<close>.\<close>

definition nameMatches :: "string \<Rightarrow> BioEntry \<Rightarrow> bool" where
  "nameMatches name bioEntry =
     (trim (toLowerCase (entry_name bioEntry)) = trim (toLowerCase name))"

text \<open>\<^verbatim>\<open>x || ''\<close> on a field that is a string or missing.\<close>

definition orEmpty :: "string option \<Rightarrow> string" where
  "orEmpty x = (case x of None \<Rightarrow> [] | Some s \<Rightarrow> s)"

definition getInstructorInfo :: "BioEntry list \<Rightarrow> string \<Rightarrow> InstructorInfo option" where
  "getInstructorInfo bios name =
     (case find (nameMatches name) bios of
        None \<Rightarrow> None
      | Some matchedInfo \<Rightarrow>
          Some \<lparr> info_bio = orEmpty (entry_bio matchedInfo),
                 info_title = orEmpty (entry_title matchedInfo) \<rparr>)"

definition fallbackBio :: string where
  "fallbackBio = ''Bio not available for this instructor.''"

text \<open>\<^verbatim>\<open>instructorInfo?.title || undefined\<close> and
  \<^verbatim>\<open>instructorInfo?.bio || 'Bio not available for this instructor.'\<close>.\<close>

definition shownTitle :: "InstructorInfo option \<Rightarrow> string option" where
  "shownTitle instructorInfo =
     (case instructorInfo of
        None \<Rightarrow> None
      | Some i \<Rightarrow> if info_title i = [] then None else Some (info_title i))"

definition shownBio :: "InstructorInfo option \<Rightarrow> string" where
  "shownBio instructorInfo =
     (case instructorInfo of
        None \<Rightarrow> fallbackBio
      | Some i \<Rightarrow> if info_bio i = [] then fallbackBio else info_bio i)"

definition canvasInstructors :: "CanvasStaffData \<Rightarrow> Person list" where
  "canvasInstructors canvasStaffData =
     (case instructors_field canvasStaffData of
        Some xs \<Rightarrow> xs
      | None \<Rightarrow>
          (case instructor_field canvasStaffData of
             Many xs \<Rightarrow> xs
           | Single p \<Rightarrow> [p]
           | Absent \<Rightarrow> []))"

definition instructorCard :: "BioEntry list \<Rightarrow> Person \<Rightarrow> InstructorView" where
  "instructorCard bios instructor =
     (let instructorInfo = getInstructorInfo bios (person_name instructor)
      in \<lparr> view_name = person_name instructor,
           view_title = shownTitle instructorInfo,
           view_email = person_email instructor,
           view_bio = shownBio instructorInfo,
           view_image = getAvatarUrl (person_name instructor) (person_email instructor) \<rparr>)"

definition instructors :: "BioEntry list \<Rightarrow> CanvasStaffData \<Rightarrow> InstructorView list" where
  "instructors bios canvasStaffData =
     (if length (canvasInstructors canvasStaffData) > 0
      then map (instructorCard bios) (canvasInstructors canvasStaffData)
      else [fallbackInstructor])"


section \<open>use-iframe-preloader.tsx\<close>

text \<open>
  \<open>loadListeners\<close> is a module-level array of callbacks, compared by identity (the
  function object), for which the type \<open>'cb\<close> stands. The array is passed in and
  returned. What a callback does when called is the parameter \<open>call\<close>, acting on the
  rest of the page's state.
\<close>

fun indexOfFrom :: "'cb list \<Rightarrow> 'cb \<Rightarrow> int \<Rightarrow> int" where
  "indexOfFrom [] callback i = - 1"
| "indexOfFrom (x # xs) callback i =
     (if x = callback then i else indexOfFrom xs callback (i + 1))"

definition indexOf :: "'cb list \<Rightarrow> 'cb \<Rightarrow> int" where
  "indexOf xs callback = indexOfFrom xs callback 0"

definition splice1 :: "'cb list \<Rightarrow> int \<Rightarrow> 'cb list" where
  \<comment> \<open>\<open>xs.splice(start, 1)\<close>: a negative start counts from the end, and the start is
      clamped to the array.\<close>
  "splice1 xs start =
     (let len = int (length xs);
          k = (if start < 0 then max (len + start) 0 else min start len)
      in take (nat k) xs @ drop (nat k + 1) xs)"

definition unsubscribe :: "'cb \<Rightarrow> 'cb list \<Rightarrow> 'cb list" where
  "unsubscribe callback loadListeners =
     (let index = indexOf loadListeners callback
      in if index > - 1 then splice1 loadListeners index else loadListeners)"

definition subscribeToIframeLoad ::
  "'cb \<Rightarrow> 'cb list \<Rightarrow> 'cb list \<times> ('cb list \<Rightarrow> 'cb list)" where
  "subscribeToIframeLoad callback loadListeners =
     (loadListeners @ [callback], unsubscribe callback)"

definition notifyListeners :: "('cb \<Rightarrow> 'w \<Rightarrow> 'w) \<Rightarrow> 'cb list \<Rightarrow> 'w \<Rightarrow> 'w" where
  "notifyListeners call loadListeners w = fold call loadListeners w"


section \<open>build-with-canvas.sh\<close>

text \<open>
  The script is a sequence of simple commands and two \<open>if\<close> statements without
  \<open>else\<close>. The exit status of each external command is given by the environment.
  The shell state holds the \<open>errexit\<close> option (\<open>set -e\<close>), the status \<open>$?\<close>, what
  has been printed and run so far, and whether the shell has exited.
\<close>

datatype Program =
    ResolveScriptDir | ResolveProjectRoot | CdProjectRoot
  | CommandVPython3 | FetchCanvasStaff | NpmBuildOnly

datatype Simple = SetErrexit | Echo string | Run Program | Exit nat

datatype Condition = NotRun Program | LastStatusNonzero

datatype Command = Do Simple | IfThen Condition "Simple list"

datatype Event = Printed string | Ran Program

record Shell =
  errexit :: bool
  last_status :: nat
  events :: "Event list"
  exited :: bool

fun execSimple :: "(Program \<Rightarrow> nat) \<Rightarrow> Simple \<Rightarrow> Shell \<Rightarrow> Shell" where
  "execSimple env SetErrexit s = s\<lparr>errexit := True, last_status := 0\<rparr>"
| "execSimple env (Echo line) s = s\<lparr>last_status := 0, events := events s @ [Printed line]\<rparr>"
| "execSimple env (Run p) s =
     s\<lparr>last_status := env p, events := events s @ [Ran p],
       exited := (errexit s \<and> 0 < env p)\<rparr>"
| "execSimple env (Exit n) s = s\<lparr>last_status := n, exited := True\<rparr>"

fun execBody :: "(Program \<Rightarrow> nat) \<Rightarrow> Simple list \<Rightarrow> Shell \<Rightarrow> Shell" where
  "execBody env [] s = s"
| "execBody env (c # cs) s =
     (let s' = execSimple env c s in if exited s' then s' else execBody env cs s')"

text \<open>A command in the condition of an \<open>if\<close> is exempt from \<open>errexit\<close>.\<close>

fun test :: "(Program \<Rightarrow> nat) \<Rightarrow> Condition \<Rightarrow> Shell \<Rightarrow> Shell" where
  "test env (NotRun p) s =
     s\<lparr>last_status := (if env p = 0 then 1 else 0), events := events s @ [Ran p]\<rparr>"
| "test env LastStatusNonzero s =
     s\<lparr>last_status := (if last_status s = 0 then 1 else 0)\<rparr>"

fun exec :: "(Program \<Rightarrow> nat) \<Rightarrow> Command \<Rightarrow> Shell \<Rightarrow> Shell" where
  "exec env (Do c) s = execSimple env c s"
| "exec env (IfThen c body) s =
     (let s' = test env c s
      in if last_status s' = 0 then execBody env body s' else s'\<lparr>last_status := 0\<rparr>)"

fun execAll :: "(Program \<Rightarrow> nat) \<Rightarrow> Command list \<Rightarrow> Shell \<Rightarrow> Shell" where
  "execAll env [] s = s"
| "execAll env (c # cs) s =
     (let s' = exec env c s in if exited s' then s' else execAll env cs s')"

definition buildWithCanvas :: "Command list" where
  "buildWithCanvas =
     [ Do SetErrexit,
       Do (Run ResolveScriptDir),
       Do (Run ResolveProjectRoot),
       Do (Echo ''=== Fetching Canvas Staff Data ===''),
       Do (Run CdProjectRoot),
       IfThen (NotRun CommandVPython3)
         [Echo ''ERROR: python3 is required but not found'', Exit 1],
       Do (Run FetchCanvasStaff),
       IfThen LastStatusNonzero
         [Echo ''WARNING: Failed to fetch Canvas data. Building with existing data or fallback.''],
       Do (Echo ''''),
       Do (Echo ''=== Building Site ===''),
       Do (Run NpmBuildOnly),
       Do (Echo ''''),
       Do (Echo ''=== Build Complete ==='') ]"

definition runBuildWithCanvas :: "(Program \<Rightarrow> nat) \<Rightarrow> Shell" where
  "runBuildWithCanvas env =
     execAll env buildWithCanvas
       \<lparr>errexit = False, last_status = 0, events = [], exited = False\<rparr>"

text \<open>The environment in which only the fetch script fails, with the given status.\<close>

definition fetchFails :: "nat \<Rightarrow> Program \<Rightarrow> nat" where
  "fetchFails status p = (if p = FetchCanvasStaff then status else 0)"


section \<open>The Bio Reconciler\<close>

text \<open>
  The Reconciler merges the roster's instructors into the bios record. A name is
  normalized by trimming and case-folding, with the string functions of the page code,
  and the fallback text is the one the page shows.
\<close>

text \<open>Modelled from the spec: the name normalization of \<open>scripts/fetch-canvas-staff.py\<close>,
  which is not among the sources ("normalize name (trim, case-fold)").\<close>

definition normalizedName :: "string \<Rightarrow> string" where
  "normalizedName s = toLowerCase (trim s)"

text \<open>Modelled from the spec: the scan of \<open>scripts/fetch-canvas-staff.py\<close>, which is not
  among the sources ("scan BiosRecord.entries for an entry whose normalized name equals
  it; first match wins").\<close>

definition matchingEntry :: "BioEntry list \<Rightarrow> Person \<Rightarrow> BioEntry option" where
  "matchingEntry entries p =
     find (\<lambda>e. normalizedName (entry_name e) = normalizedName (person_name p)) entries"

text \<open>Modelled from the spec: the entry that \<open>scripts/fetch-canvas-staff.py\<close>, which is
  not among the sources, appends ("name copied verbatim from the roster, title absent,
  and bio set to a fixed fallback string").\<close>

definition newEntry :: "Person \<Rightarrow> BioEntry" where
  "newEntry p = \<lparr> entry_name = person_name p, entry_title = None, entry_bio = Some fallbackBio \<rparr>"

text \<open>Modelled from the spec: the merge loop of \<open>scripts/fetch-canvas-staff.py\<close>, which
  is not among the sources. Each person of the instructors list, in order, is looked up
  in the previously persisted record; an unmatched person gets one new entry at the end
  of the record, and the count of appended entries goes up by one.\<close>

fun reconcileLoop ::
  "BioEntry list \<Rightarrow> Person list \<Rightarrow> BioEntry list \<times> nat \<Rightarrow> BioEntry list \<times> nat" where
  "reconcileLoop prior [] (entries, appended) = (entries, appended)"
| "reconcileLoop prior (p # ps) (entries, appended) =
     (case matchingEntry prior p of
        Some e \<Rightarrow> reconcileLoop prior ps (entries, appended)
      | None \<Rightarrow> reconcileLoop prior ps (entries @ [newEntry p], appended + 1))"

text \<open>Modelled from the spec: the Bio Reconciler of \<open>scripts/fetch-canvas-staff.py\<close>,
  which is not among the sources: from the roster's instructors and the previously
  persisted record to the new record and the number of entries appended.\<close>

definition reconcile :: "Person list \<Rightarrow> BioEntry list \<Rightarrow> BioEntry list \<times> nat" where
  "reconcile roster bios = reconcileLoop bios roster (bios, 0)"


section \<open>Conditions and compositions the properties speak of\<close>

text \<open>"No bios entry matches the name, or the matching entry's bio is empty or absent",
  the matching entry being the one the lookup finds.\<close>

definition noBioFor :: "BioEntry list \<Rightarrow> string \<Rightarrow> bool" where
  "noBioFor bios name =
     (case find (nameMatches name) bios of
        None \<Rightarrow> True
      | Some e \<Rightarrow> entry_bio e = None \<or> entry_bio e = Some [])"

text \<open>The entry the lookup finds stores the fallback text itself as its bio.\<close>

definition storesFallbackText :: "BioEntry list \<Rightarrow> string \<Rightarrow> bool" where
  "storesFallbackText bios name =
     (case find (nameMatches name) bios of
        None \<Rightarrow> False
      | Some e \<Rightarrow> entry_bio e = Some fallbackBio)"

text \<open>Subscribing a callback and calling the function that the subscription returned.\<close>

definition subscribeThenUnsubscribe :: "'cb \<Rightarrow> 'cb list \<Rightarrow> 'cb list" where
  "subscribeThenUnsubscribe callback loadListeners =
     (case subscribeToIframeLoad callback loadListeners of
        (subscribed, unsubscribeFn) \<Rightarrow> unsubscribeFn subscribed)"


section \<open>Names over all code units\<close>

text \<open>
  The same test on strings of arbitrary UTF-16 code units, a code unit being its number.
  \<open>trim\<close> removes the WhiteSpace and LineTerminator code units of ECMAScript at both
  ends. The \<open>toLowerCase\<close> of the engine follows the Unicode case tables, which are
  no part of the repository: it is the parameter \<open>toLower\<close>.
\<close>

definition isWhiteSpaceUnit :: "nat \<Rightarrow> bool" where
  \<comment> \<open>TAB, LF, VT, FF, CR, SP, NBSP, U+1680, U+2000 to U+200A, U+2028, U+2029, U+202F,
      U+205F, U+3000, U+FEFF.\<close>
  "isWhiteSpaceUnit n =
     (n \<in> {9, 10, 11, 12, 13, 32, 160, 5760, 8232, 8233, 8239, 8287, 12288, 65279}
      \<or> (8192 \<le> n \<and> n \<le> 8202))"

definition trimUnits :: "nat list \<Rightarrow> nat list" where
  "trimUnits s = rev (dropWhile isWhiteSpaceUnit (rev (dropWhile isWhiteSpaceUnit s)))"

definition nameMatchesUnits :: "(nat list \<Rightarrow> nat list) \<Rightarrow> nat list \<Rightarrow> nat list \<Rightarrow> bool" where
  "nameMatchesUnits toLower name entryName =
     (trimUnits (toLower entryName) = trimUnits (toLower name))"

text \<open>The code units of a string of the first section, and the lower-casing of these
  strings written on code units (a unit from 256 on is left as it is).\<close>

definition units :: "string \<Rightarrow> nat list" where
  "units s = map of_char s"

definition lowerUnit :: "nat \<Rightarrow> nat" where
  "lowerUnit n =
     (if (65 \<le> n \<and> n \<le> 90) \<or> (192 \<le> n \<and> n \<le> 222 \<and> n \<noteq> 215) then n + 32 else n)"


section \<open>Name matching\<close>

lemma isWhiteSpace_lowerChar: "isWhiteSpace (lowerChar c) = isWhiteSpace c"
  unfolding isWhiteSpace_def lowerChar_def isUpperCase_def Let_def by auto

lemma dropWhile_ws_lower:
  "dropWhile isWhiteSpace (map lowerChar s) = map lowerChar (dropWhile isWhiteSpace s)"
  by (induction s) (simp_all add: isWhiteSpace_lowerChar)

lemma trim_toLowerCase: "trim (toLowerCase s) = toLowerCase (trim s)"
proof -
  have "trim (map lowerChar s)
      = rev (dropWhile isWhiteSpace (map lowerChar (rev (dropWhile isWhiteSpace s))))"
    by (simp only: trim_def dropWhile_ws_lower rev_map)
  also have "\<dots> = map lowerChar (trim s)"
    by (simp only: trim_def dropWhile_ws_lower rev_map)
  finally show ?thesis by (simp only: toLowerCase_def)
qed

lemma dropWhile_blanks_front:
  "dropWhile isWhiteSpace (replicate k (CHR '' '') @ t) = dropWhile isWhiteSpace t"
  by (induction k) (simp_all add: isWhiteSpace_def)

lemma trim_blanks_around:
  "trim (replicate m (CHR '' '') @ s @ replicate n (CHR '' '')) = trim s"
proof -
  let ?sp = "CHR '' ''"
  have sp: "isWhiteSpace ?sp" by (simp add: isWhiteSpace_def)
  show ?thesis
  proof (cases "list_all isWhiteSpace s")
    case True
    then have all: "\<forall>x \<in> set (s @ replicate n ?sp). isWhiteSpace x"
      using sp by (auto simp add: list_all_iff)
    have e1: "dropWhile isWhiteSpace (s @ replicate n ?sp) = []"
      using all by (simp only: dropWhile_eq_Nil_conv)
    have e2: "dropWhile isWhiteSpace s = []"
      using True by (simp add: dropWhile_eq_Nil_conv list_all_iff)
    show ?thesis
      by (simp only: trim_def dropWhile_blanks_front e1 e2)
  next
    case False
    then obtain x where "x \<in> set s" and "\<not> isWhiteSpace x"
      by (auto simp add: list_all_iff)
    then have "dropWhile isWhiteSpace (s @ replicate n ?sp)
             = dropWhile isWhiteSpace s @ replicate n ?sp"
      by (rule dropWhile_append1)
    then show ?thesis
      by (simp add: trim_def dropWhile_blanks_front)
  qed
qed

lemma nameMatches_normalized:
  "nameMatches name e = (toLowerCase (trim (entry_name e)) = toLowerCase (trim name))"
  by (simp add: nameMatches_def trim_toLowerCase)

lemma nameMatches_blanks_around:
  "nameMatches (replicate m (CHR '' '') @ name @ replicate n (CHR '' '')) e = nameMatches name e"
  by (simp only: nameMatches_normalized trim_blanks_around)

text \<open>The strings of the first section inside the strings of all code units.\<close>

lemma isWhiteSpaceUnit_below_256:
  "n < 256 \<Longrightarrow> isWhiteSpaceUnit n = (n \<in> {9, 10, 11, 12, 13, 32, 160})"
  unfolding isWhiteSpaceUnit_def by auto

lemma isWhiteSpaceUnit_of_char: "isWhiteSpaceUnit (of_char c) = isWhiteSpace c"
  by (simp only: isWhiteSpaceUnit_below_256 [OF nat_of_char_less_256] isWhiteSpace_def)

lemma of_char_lowerChar: "of_char (lowerChar c) = lowerUnit (of_char c)"
  unfolding lowerChar_def lowerUnit_def isUpperCase_def Let_def by auto

lemma units_toLowerCase: "units (toLowerCase s) = map lowerUnit (units s)"
  by (simp add: units_def toLowerCase_def of_char_lowerChar)

lemma units_dropWhile:
  "map of_char (dropWhile isWhiteSpace s) = dropWhile isWhiteSpaceUnit (map of_char s)"
  by (induction s) (simp_all add: isWhiteSpaceUnit_of_char)

lemma units_trim: "units (trim s) = trimUnits (units s)"
proof -
  have "units (trim s)
      = rev (dropWhile isWhiteSpaceUnit (map of_char (rev (dropWhile isWhiteSpace s))))"
    by (simp only: units_def trim_def rev_map [symmetric] units_dropWhile)
  also have "\<dots> = rev (dropWhile isWhiteSpaceUnit (rev (dropWhile isWhiteSpaceUnit (map of_char s))))"
    by (simp only: rev_map [symmetric] units_dropWhile)
  finally show ?thesis by (simp only: trimUnits_def units_def)
qed

lemma units_eq: "(units a = units b) = (a = b)"
  unfolding units_def by (rule inj_map_eq_map [OF inj_of_char])

lemma nameMatches_units:
  "nameMatches name e = nameMatchesUnits (map lowerUnit) (units name) (units (entry_name e))"
proof -
  have "nameMatches name e
      = (units (trim (toLowerCase (entry_name e))) = units (trim (toLowerCase name)))"
    by (simp only: nameMatches_def units_eq)
  then show ?thesis
    by (simp only: nameMatchesUnits_def units_trim units_toLowerCase)
qed

lemma isWhiteSpaceUnit_lowerUnit: "isWhiteSpaceUnit (lowerUnit n) = isWhiteSpaceUnit n"
  unfolding isWhiteSpaceUnit_def lowerUnit_def by auto

lemma dropWhile_lowerUnit:
  "dropWhile isWhiteSpaceUnit (map lowerUnit s) = map lowerUnit (dropWhile isWhiteSpaceUnit s)"
  by (induction s) (simp_all add: isWhiteSpaceUnit_lowerUnit)

lemma trimUnits_lowerUnit: "trimUnits (map lowerUnit s) = map lowerUnit (trimUnits s)"
proof -
  have "trimUnits (map lowerUnit s)
      = rev (dropWhile isWhiteSpaceUnit (map lowerUnit (rev (dropWhile isWhiteSpaceUnit s))))"
    by (simp only: trimUnits_def dropWhile_lowerUnit rev_map)
  also have "\<dots> = map lowerUnit (trimUnits s)"
    by (simp only: trimUnits_def dropWhile_lowerUnit rev_map)
  finally show ?thesis .
qed

text \<open>
  Claim C4. Name matching ignores case and surrounding whitespace. The roster name
  \<open>"  Jane Doe "\<close> matches the entry named \<open>"Jane Doe"\<close>, and \<open>"JANE doe"\<close>
  matches \<open>" jane DOE"\<close>; \<open>"Jane Doe"\<close> does not match \<open>"Jane Roe"\<close>, nor does
  \<open>"JaneDoe"\<close> match \<open>"Jane Doe"\<close>; blanks around a name never change the outcome.
  For any two names the test of the lookup is true, and the lookup in a record holding
  just that entry succeeds, exactly when their trimmed, lower-cased forms are equal.
  The test is the one on code units with the lower-casing of the first section; on
  strings of any code units and with any lower-casing, it is equality of the lower-cased
  and trimmed forms, and where lower-casing commutes with trimming, as that of the
  engine does, equality of the trimmed and lower-cased forms.
\<close>

theorem name_matching_normalized:
  "nameMatches ''  Jane Doe '' \<lparr> entry_name = ''Jane Doe'', entry_title = t, entry_bio = b \<rparr>
   \<and> nameMatches ''JANE doe'' \<lparr> entry_name = '' jane DOE'', entry_title = t, entry_bio = b \<rparr>
   \<and> \<not> nameMatches ''Jane Doe'' \<lparr> entry_name = ''Jane Roe'', entry_title = t, entry_bio = b \<rparr>
   \<and> \<not> nameMatches ''JaneDoe'' \<lparr> entry_name = ''Jane Doe'', entry_title = t, entry_bio = b \<rparr>
   \<and> nameMatches (replicate m (CHR '' '') @ name @ replicate n (CHR '' '')) e = nameMatches name e
   \<and> nameMatches name e = (toLowerCase (trim (entry_name e)) = toLowerCase (trim name))
   \<and> (getInstructorInfo [e] name \<noteq> None)
       = (toLowerCase (trim (entry_name e)) = toLowerCase (trim name))
   \<and> nameMatches name e = nameMatchesUnits (map lowerUnit) (units name) (units (entry_name e))
   \<and> nameMatchesUnits toLower u v = (trimUnits (toLower v) = trimUnits (toLower u))
   \<and> ((\<forall>s. trimUnits (toLower s) = toLower (trimUnits s)) \<longrightarrow>
         nameMatchesUnits toLower u v = (toLower (trimUnits v) = toLower (trimUnits u)))"
proof (intro conjI)
  show "nameMatches ''  Jane Doe '' \<lparr> entry_name = ''Jane Doe'', entry_title = t, entry_bio = b \<rparr>"
    unfolding nameMatches_def by code_simp
  show "nameMatches ''JANE doe'' \<lparr> entry_name = '' jane DOE'', entry_title = t, entry_bio = b \<rparr>"
    unfolding nameMatches_def by code_simp
  show "\<not> nameMatches ''Jane Doe'' \<lparr> entry_name = ''Jane Roe'', entry_title = t, entry_bio = b \<rparr>"
    unfolding nameMatches_def by code_simp
  show "\<not> nameMatches ''JaneDoe'' \<lparr> entry_name = ''Jane Doe'', entry_title = t, entry_bio = b \<rparr>"
    unfolding nameMatches_def by code_simp
  show "nameMatches (replicate m (CHR '' '') @ name @ replicate n (CHR '' '')) e = nameMatches name e"
    by (rule nameMatches_blanks_around)
  show "nameMatches name e = (toLowerCase (trim (entry_name e)) = toLowerCase (trim name))"
    by (rule nameMatches_normalized)
  show "(getInstructorInfo [e] name \<noteq> None)
       = (toLowerCase (trim (entry_name e)) = toLowerCase (trim name))"
    by (simp add: getInstructorInfo_def nameMatches_normalized)
  show "nameMatches name e = nameMatchesUnits (map lowerUnit) (units name) (units (entry_name e))"
    by (rule nameMatches_units)
  show "nameMatchesUnits toLower u v = (trimUnits (toLower v) = trimUnits (toLower u))"
    by (simp only: nameMatchesUnits_def)
  show "(\<forall>s. trimUnits (toLower s) = toLower (trimUnits s)) \<longrightarrow>
         nameMatchesUnits toLower u v = (toLower (trimUnits v) = toLower (trimUnits u))"
    by (simp add: nameMatchesUnits_def)
qed

text \<open>An instance beyond code unit 255: \<open>"JANE"\<close> between an ideographic space
  (U+3000) and an em space (U+2003) matches \<open>"jane"\<close> followed by U+FEFF, under the
  lower-casing of the first section, which commutes with trimming.\<close>

theorem name_matching_normalized_witness:
  "(\<forall>s. trimUnits (map lowerUnit s) = map lowerUnit (trimUnits s))
   \<and> map lowerUnit (trimUnits [106, 97, 110, 101, 65279])
       = map lowerUnit (trimUnits [12288, 74, 65, 78, 69, 8195])
   \<and> nameMatchesUnits (map lowerUnit) [12288, 74, 65, 78, 69, 8195] [106, 97, 110, 101, 65279]"
proof -
  have h: "\<forall>s. trimUnits (map lowerUnit s) = map lowerUnit (trimUnits s)"
    by (simp add: trimUnits_lowerUnit)
  have eq: "map lowerUnit (trimUnits [106, 97, 110, 101, 65279])
       = map lowerUnit (trimUnits [12288, 74, 65, 78, 69, 8195])"
    by (simp add: trimUnits_def lowerUnit_def isWhiteSpaceUnit_def)
  show ?thesis
    using h eq
      name_matching_normalized [where toLower = "map lowerUnit"
        and u = "[12288, 74, 65, 78, 69, 8195]" and v = "[106, 97, 110, 101, 65279]"]
    by blast
qed


section \<open>The lookup takes the first match\<close>

lemma find_first:
  "\<forall>x \<in> set before. \<not> P x \<Longrightarrow> P e \<Longrightarrow> find P (before @ e # rest) = Some e"
  by (induction before) simp_all

text \<open>
  Claim C5. When several entries of the record have the same normalized name, the
  lookup for a roster name takes the first of them in file order: an entry that matches
  and has no matching entry before it is the one found, whatever comes after it, so a
  later duplicate is never selected.
\<close>

theorem first_match_wins:
  assumes "\<forall>x \<in> set before. \<not> nameMatches name x" and "nameMatches name e"
  shows "find (nameMatches name) (before @ e # rest) = Some e
       \<and> getInstructorInfo (before @ e # rest) name
           = Some \<lparr> info_bio = orEmpty (entry_bio e), info_title = orEmpty (entry_title e) \<rparr>"
  using find_first [OF assms] by (simp add: getInstructorInfo_def)

text \<open>An instance: two entries for Jane Doe after an entry for someone else; the first
  of the two is used.\<close>

theorem first_match_wins_witness:
  "\<not> nameMatches ''Jane Doe''
        \<lparr> entry_name = ''Alan Turing'', entry_title = None, entry_bio = Some ''other'' \<rparr>
   \<and> nameMatches ''Jane Doe''
        \<lparr> entry_name = ''Jane Doe'', entry_title = Some ''Professor'', entry_bio = Some ''first'' \<rparr>
   \<and> nameMatches ''Jane Doe''
        \<lparr> entry_name = '' JANE DOE '', entry_title = Some ''Lecturer'', entry_bio = Some ''second'' \<rparr>
   \<and> getInstructorInfo
        ([\<lparr> entry_name = ''Alan Turing'', entry_title = None, entry_bio = Some ''other'' \<rparr>]
          @ \<lparr> entry_name = ''Jane Doe'', entry_title = Some ''Professor'', entry_bio = Some ''first'' \<rparr>
          # [\<lparr> entry_name = '' JANE DOE '', entry_title = Some ''Lecturer'', entry_bio = Some ''second'' \<rparr>])
        ''Jane Doe''
      = Some \<lparr> info_bio = ''first'', info_title = ''Professor'' \<rparr>"
proof -
  have a0: "\<not> nameMatches ''Jane Doe''
        \<lparr> entry_name = ''Alan Turing'', entry_title = None, entry_bio = Some ''other'' \<rparr>"
    by code_simp
  then have a: "\<forall>x \<in> set [\<lparr> entry_name = ''Alan Turing'', entry_title = None, entry_bio = Some ''other'' \<rparr>].
       \<not> nameMatches ''Jane Doe'' x"
    by simp
  have b: "nameMatches ''Jane Doe''
        \<lparr> entry_name = ''Jane Doe'', entry_title = Some ''Professor'', entry_bio = Some ''first'' \<rparr>"
    by code_simp
  have c: "nameMatches ''Jane Doe''
        \<lparr> entry_name = '' JANE DOE '', entry_title = Some ''Lecturer'', entry_bio = Some ''second'' \<rparr>"
    by code_simp
  show ?thesis
    using a0 b c first_match_wins [OF a b,
      of "[\<lparr> entry_name = '' JANE DOE '', entry_title = Some ''Lecturer'', entry_bio = Some ''second'' \<rparr>]"]
    by (simp add: orEmpty_def)
qed


section \<open>What the page shows for an instructor\<close>

lemma fallbackBio_nonempty: "fallbackBio \<noteq> []"
  by (simp add: fallbackBio_def)

lemma shownBio_fallback:
  "(shownBio (getInstructorInfo bios name) = fallbackBio)
     = (noBioFor bios name \<or> storesFallbackText bios name)"
  using fallbackBio_nonempty
  by (auto simp add: shownBio_def getInstructorInfo_def noBioFor_def storesFallbackText_def
        orEmpty_def split: option.splits)

lemma shownTitle_unmatched:
  "find (nameMatches name) bios = None \<Longrightarrow> shownTitle (getInstructorInfo bios name) = None"
  by (simp add: shownTitle_def getInstructorInfo_def)

lemma instructors_nth:
  "i < length (canvasInstructors d) \<Longrightarrow>
   instructors bios d ! i = instructorCard bios (canvasInstructors d ! i)"
  by (auto simp add: instructors_def)

text \<open>
  Claim C3, as the code has it. For every instructor taken from the canvas staff data,
  the bio shown is the fallback message exactly when no bios entry matches the name
  under normalization, or the first matching entry's bio is empty or absent, or that
  entry's bio is itself the fallback text; and when no entry matches, no title is shown.
\<close>

theorem displayed_bio_fallback:
  assumes "i < length (canvasInstructors d)"
  shows "view_name (instructors bios d ! i) = person_name (canvasInstructors d ! i)
       \<and> (view_bio (instructors bios d ! i) = fallbackBio)
           = (noBioFor bios (person_name (canvasInstructors d ! i))
              \<or> storesFallbackText bios (person_name (canvasInstructors d ! i)))
       \<and> (find (nameMatches (person_name (canvasInstructors d ! i))) bios = None
            \<longrightarrow> view_title (instructors bios d ! i) = None)"
  using assms
  by (simp add: instructors_nth instructorCard_def Let_def shownBio_fallback shownTitle_unmatched)

text \<open>An instance: the roster has Alan Turing, the record only Ada Lovelace.\<close>

theorem displayed_bio_fallback_witness:
  "0 < length (canvasInstructors
          \<lparr> instructors_field = Some [\<lparr> person_name = ''Alan Turing'', person_email = ''alan@ucsc.edu'' \<rparr>],
            instructor_field = Absent \<rparr>)
   \<and> find (nameMatches ''Alan Turing'')
        [\<lparr> entry_name = ''Ada Lovelace'', entry_title = Some ''Professor'', entry_bio = Some ''Custom bio'' \<rparr>]
       = None
   \<and> view_bio (instructors
        [\<lparr> entry_name = ''Ada Lovelace'', entry_title = Some ''Professor'', entry_bio = Some ''Custom bio'' \<rparr>]
        \<lparr> instructors_field = Some [\<lparr> person_name = ''Alan Turing'', person_email = ''alan@ucsc.edu'' \<rparr>],
          instructor_field = Absent \<rparr> ! 0) = fallbackBio
   \<and> view_title (instructors
        [\<lparr> entry_name = ''Ada Lovelace'', entry_title = Some ''Professor'', entry_bio = Some ''Custom bio'' \<rparr>]
        \<lparr> instructors_field = Some [\<lparr> person_name = ''Alan Turing'', person_email = ''alan@ucsc.edu'' \<rparr>],
          instructor_field = Absent \<rparr> ! 0) = None"
proof -
  have len: "0 < length (canvasInstructors
          \<lparr> instructors_field = Some [\<lparr> person_name = ''Alan Turing'', person_email = ''alan@ucsc.edu'' \<rparr>],
            instructor_field = Absent \<rparr>)"
    by (simp add: canvasInstructors_def)
  have p: "canvasInstructors
          \<lparr> instructors_field = Some [\<lparr> person_name = ''Alan Turing'', person_email = ''alan@ucsc.edu'' \<rparr>],
            instructor_field = Absent \<rparr> ! 0
        = \<lparr> person_name = ''Alan Turing'', person_email = ''alan@ucsc.edu'' \<rparr>"
    by (simp add: canvasInstructors_def)
  have none: "find (nameMatches ''Alan Turing'')
        [\<lparr> entry_name = ''Ada Lovelace'', entry_title = Some ''Professor'', entry_bio = Some ''Custom bio'' \<rparr>]
       = None"
    by code_simp
  show ?thesis
    using len none
      displayed_bio_fallback [OF len,
        of "[\<lparr> entry_name = ''Ada Lovelace'', entry_title = Some ''Professor'', entry_bio = Some ''Custom bio'' \<rparr>]"]
    by (simp add: p noBioFor_def)
qed

text \<open>The claim without the third case fails: an entry that matches and whose bio is
  the fallback text (neither empty nor absent) makes the page show the fallback
  message.\<close>

theorem displayed_bio_counterexample:
  "view_bio (instructors
        [\<lparr> entry_name = ''Ada Lovelace'', entry_title = None, entry_bio = Some fallbackBio \<rparr>]
        \<lparr> instructors_field = Some [\<lparr> person_name = ''Ada Lovelace'', person_email = ''ada@ucsc.edu'' \<rparr>],
          instructor_field = Absent \<rparr> ! 0) = fallbackBio
   \<and> \<not> noBioFor
        [\<lparr> entry_name = ''Ada Lovelace'', entry_title = None, entry_bio = Some fallbackBio \<rparr>]
        ''Ada Lovelace''"
  by code_simp

text \<open>
  Claim C8. The page accepts every shape of the roster's instructor field: an
  \<open>instructors\<close> array is taken as it is, a single \<open>instructor\<close> object becomes a
  one-element sequence, an \<open>instructor\<close> array is taken as it is, and with neither
  field the sequence is empty; when the sequence is empty the page shows exactly the one
  hardcoded fallback instructor.
\<close>

theorem instructor_shapes:
  "canvasInstructors \<lparr> instructors_field = Some xs, instructor_field = f \<rparr> = xs
   \<and> canvasInstructors \<lparr> instructors_field = None, instructor_field = Single p \<rparr> = [p]
   \<and> canvasInstructors \<lparr> instructors_field = None, instructor_field = Many ys \<rparr> = ys
   \<and> canvasInstructors \<lparr> instructors_field = None, instructor_field = Absent \<rparr> = []
   \<and> (canvasInstructors d = [] \<longrightarrow> instructors bios d = [fallbackInstructor])"
  by (simp add: canvasInstructors_def instructors_def)

text \<open>An instance: neither field is there, and no bios.\<close>

theorem instructor_shapes_witness:
  "canvasInstructors \<lparr> instructors_field = None, instructor_field = Absent \<rparr> = []
   \<and> instructors [] \<lparr> instructors_field = None, instructor_field = Absent \<rparr> = [fallbackInstructor]"
  using instructor_shapes [of "[]" Absent "\<lparr> person_name = [], person_email = [] \<rparr>" "[]"
      "\<lparr> instructors_field = None, instructor_field = Absent \<rparr>" "[]"]
  by simp

lemma instructors_renders_each:
  "canvasInstructors d \<noteq> [] \<Longrightarrow>
   instructors bios d = map (instructorCard bios) (canvasInstructors d)"
  by (simp add: instructors_def)

text \<open>
  Claim C9. The avatar URL of a staff member depends on the name only: for every name
  and any two emails, \<open>getAvatarUrl\<close> gives the same URL.
\<close>

theorem avatar_ignores_email: "getAvatarUrl name email1 = getAvatarUrl name email2"
  by (simp add: getAvatarUrl_def)

lemma getAvatarUrl_example:
  "getAvatarUrl ''Jane Doe'' ''jd@ucsc.edu''
     = ''https://ui-avatars.com/api/?name=Jane%20Doe&background=random&size=400''"
  by code_simp


section \<open>The listener list\<close>

lemma indexOfFrom_absent: "callback \<notin> set xs \<Longrightarrow> indexOfFrom xs callback i = - 1"
  by (induction xs arbitrary: i) auto

lemma indexOfFrom_present:
  "callback \<in> set xs \<Longrightarrow> 0 \<le> i \<Longrightarrow>
   i \<le> indexOfFrom xs callback i \<and> indexOfFrom xs callback i < i + int (length xs)
   \<and> take (nat (indexOfFrom xs callback i - i)) xs
       @ drop (nat (indexOfFrom xs callback i - i) + 1) xs = remove1 callback xs"
proof (induction xs arbitrary: i)
  case Nil
  then show ?case by simp
next
  case (Cons x xs)
  show ?case
  proof (cases "x = callback")
    case True
    then show ?thesis by simp
  next
    case False
    with Cons.prems have mem: "callback \<in> set xs" by simp
    have nonneg: "0 \<le> i + 1" using Cons.prems by simp
    note ih = Cons.IH [OF mem nonneg]
    define j where "j = indexOfFrom xs callback (i + 1)"
    have j: "i + 1 \<le> j" "j < i + 1 + int (length xs)"
      and td: "take (nat (j - (i + 1))) xs @ drop (nat (j - (i + 1)) + 1) xs = remove1 callback xs"
      using ih by (simp_all add: j_def)
    have n: "nat (j - i) = Suc (nat (j - (i + 1)))" using j by simp
    show ?thesis using False j td n by (simp add: j_def [symmetric])
  qed
qed

lemma unsubscribe_remove1: "unsubscribe callback xs = remove1 callback xs"
proof (cases "callback \<in> set xs")
  case False
  then show ?thesis
    by (simp add: unsubscribe_def indexOf_def indexOfFrom_absent remove1_idem)
next
  case True
  from indexOfFrom_present [OF True, of 0]
  have b: "0 \<le> indexOfFrom xs callback 0" "indexOfFrom xs callback 0 < int (length xs)"
    and td: "take (nat (indexOfFrom xs callback 0)) xs
       @ drop (nat (indexOfFrom xs callback 0) + 1) xs = remove1 callback xs"
    by simp_all
  show ?thesis using b td
    by (simp add: unsubscribe_def indexOf_def splice1_def Let_def min_def)
qed

text \<open>
  Claim C10, as the code has it. The function returned by a subscription removes the
  first occurrence of the callback and does nothing when the callback is absent.
  Subscribing a callback and then calling the returned function leaves the list with the
  same callbacks, each as many times as before; when the callback was not in the list
  before, the list is restored exactly, order included, and \<open>notifyListeners\<close> then
  calls the same callbacks in the same order as before the subscription.
\<close>

theorem unsubscribe_after_subscribe:
  "unsubscribe callback xs = remove1 callback xs
   \<and> mset (subscribeThenUnsubscribe callback loadListeners) = mset loadListeners
   \<and> (callback \<notin> set loadListeners \<longrightarrow>
        subscribeThenUnsubscribe callback loadListeners = loadListeners
        \<and> notifyListeners call (subscribeThenUnsubscribe callback loadListeners) w
          = notifyListeners call loadListeners w)"
proof -
  have r: "callback \<notin> set loadListeners \<Longrightarrow>
      remove1 callback (loadListeners @ [callback]) = loadListeners"
    by (simp add: remove1_append)
  show ?thesis
    by (simp add: subscribeThenUnsubscribe_def subscribeToIframeLoad_def unsubscribe_remove1 r)
qed

text \<open>An instance: callback 3 joins and leaves the list of callbacks 1 and 2; each
  callback, when called, writes its number to a log.\<close>

theorem unsubscribe_after_subscribe_witness:
  "(3::nat) \<notin> set [1, 2]
   \<and> subscribeThenUnsubscribe (3::nat) [1, 2] = [1, 2]
   \<and> notifyListeners (\<lambda>callback w. w @ [callback]) (subscribeThenUnsubscribe (3::nat) [1, 2]) []
       = notifyListeners (\<lambda>callback w. w @ [callback]) [1, 2] []"
  using unsubscribe_after_subscribe [of "3::nat" "[]" "[1, 2]" "\<lambda>callback w. w @ [callback]" "[]"]
  by simp

text \<open>A callback that is already in the list: callback 1 is subscribed a second time
  and the returned function is called. The occurrence removed is the old one at the
  front, so the list is not the one before, and the callbacks are called in another
  order.\<close>

theorem resubscribe_counterexample:
  "subscribeThenUnsubscribe (1::nat) [1, 2] = [2, 1]
   \<and> notifyListeners (\<lambda>callback w. w @ [callback]) (subscribeThenUnsubscribe (1::nat) [1, 2]) []
      \<noteq> notifyListeners (\<lambda>callback w. w @ [callback]) [1, 2] []"
  by (simp add: subscribeThenUnsubscribe_def subscribeToIframeLoad_def unsubscribe_def
        indexOf_def splice1_def notifyListeners_def)


section \<open>The build script when the fetch fails\<close>

text \<open>
  Claim C7. When the fetch script exits with a nonzero status, the build script should
  go on and build the site. The script runs under \<open>set -e\<close> and the fetch is a plain
  command, so the shell exits there with the status of the fetch: the warning is not
  printed and \<open>npm run build:only\<close> is not run. Evaluated where the fetch exits with
  status 1 and every other command succeeds.
\<close>

theorem build_stops_when_fetch_fails:
  "runBuildWithCanvas (fetchFails 1) =
     \<lparr> errexit = True, last_status = 1,
       events = [Ran ResolveScriptDir, Ran ResolveProjectRoot,
                 Printed ''=== Fetching Canvas Staff Data ==='', Ran CdProjectRoot,
                 Ran CommandVPython3, Ran FetchCanvasStaff],
       exited = True \<rparr>"
  by (simp add: runBuildWithCanvas_def buildWithCanvas_def fetchFails_def)

lemma build_runs_when_fetch_succeeds:
  "runBuildWithCanvas (fetchFails 0) =
     \<lparr> errexit = True, last_status = 0,
       events = [Ran ResolveScriptDir, Ran ResolveProjectRoot,
                 Printed ''=== Fetching Canvas Staff Data ==='', Ran CdProjectRoot,
                 Ran CommandVPython3, Ran FetchCanvasStaff,
                 Printed [], Printed ''=== Building Site ==='', Ran NpmBuildOnly,
                 Printed [], Printed ''=== Build Complete ===''],
       exited = False \<rparr>"
  by (simp add: runBuildWithCanvas_def buildWithCanvas_def fetchFails_def)

lemma build_never_runs_after_failed_fetch:
  "0 < env FetchCanvasStaff \<Longrightarrow> Ran NpmBuildOnly \<notin> set (events (runBuildWithCanvas env))"
  by (simp add: runBuildWithCanvas_def buildWithCanvas_def Let_def)


section \<open>Reconciliation\<close>

lemma reconcileLoop_appends:
  "reconcileLoop prior ps (entries, appended) =
     (entries @ map newEntry (filter (\<lambda>p. matchingEntry prior p = None) ps),
      appended + length (filter (\<lambda>p. matchingEntry prior p = None) ps))"
  by (induction ps arbitrary: entries appended) (auto split: option.splits)

lemma reconcile_eq:
  "reconcile roster bios =
     (bios @ map newEntry (filter (\<lambda>p. matchingEntry bios p = None) roster),
      length (filter (\<lambda>p. matchingEntry bios p = None) roster))"
  by (simp add: reconcile_def reconcileLoop_appends)

lemma matchingEntry_None:
  "(matchingEntry bios p = None)
     = (normalizedName (person_name p) \<notin> set (map (\<lambda>e. normalizedName (entry_name e)) bios))"
  by (force simp add: matchingEntry_def find_None_iff image_iff)

text \<open>
  Claim C1. The Reconciler never modifies, removes or reorders an entry that was in the
  persisted record before the run: the prior entries are the first entries of the new
  record, each at its position with its name, title and bio as found, also when the
  roster writes the name in another case or with other whitespace.
\<close>

theorem reconcile_keeps_prior:
  "take (length bios) (fst (reconcile roster bios)) = bios
   \<and> length bios \<le> length (fst (reconcile roster bios))
   \<and> (i < length bios \<longrightarrow> fst (reconcile roster bios) ! i = bios ! i)"
  by (simp add: reconcile_eq nth_append)

text \<open>An instance: the record has Jane Doe with a title and a bio of her own, and the
  roster writes her name in capitals with spaces around it.\<close>

theorem reconcile_keeps_prior_witness:
  "(0::nat) < length [\<lparr> entry_name = ''Jane Doe'', entry_title = Some ''Professor'', entry_bio = Some ''Custom bio'' \<rparr>]
   \<and> fst (reconcile [\<lparr> person_name = ''  JANE doe '', person_email = ''jd@ucsc.edu'' \<rparr>]
             [\<lparr> entry_name = ''Jane Doe'', entry_title = Some ''Professor'', entry_bio = Some ''Custom bio'' \<rparr>]) ! 0
       = \<lparr> entry_name = ''Jane Doe'', entry_title = Some ''Professor'', entry_bio = Some ''Custom bio'' \<rparr>"
  using reconcile_keeps_prior [of "[\<lparr> entry_name = ''Jane Doe'', entry_title = Some ''Professor'', entry_bio = Some ''Custom bio'' \<rparr>]"
      "[\<lparr> person_name = ''  JANE doe '', person_email = ''jd@ucsc.edu'' \<rparr>]" 0]
  by simp

text \<open>
  Claim C2. The new record is the prior record followed by one new entry for each
  person of the instructors list that has no entry with the same normalized name in the
  prior record, in the order of the instructors list; a person that matches a prior
  entry, even only under normalization, gets no entry. A new entry has the name as the
  roster writes it, no title and the fallback text as bio. The result is a function of
  the instructors list and the prior record, so the same pair gives the same entries.
\<close>

theorem reconcile_appends_unmatched:
  "reconcile roster bios =
     (bios @ map newEntry (filter (\<lambda>p. matchingEntry bios p = None) roster),
      length (filter (\<lambda>p. matchingEntry bios p = None) roster))
   \<and> (matchingEntry bios p = None)
       = (normalizedName (person_name p) \<notin> set (map (\<lambda>e. normalizedName (entry_name e)) bios))
   \<and> newEntry p = \<lparr> entry_name = person_name p, entry_title = None,
                     entry_bio = Some ''Bio not available for this instructor.'' \<rparr>"
  by (simp add: reconcile_eq matchingEntry_None newEntry_def fallbackBio_def)

lemma reconcile_empty_record:
  "reconcile [\<lparr> person_name = ''Ada Lovelace'', person_email = ''ada@ucsc.edu'' \<rparr>,
              \<lparr> person_name = ''Alan Turing'', person_email = ''alan@ucsc.edu'' \<rparr>] []
   = ([\<lparr> entry_name = ''Ada Lovelace'', entry_title = None, entry_bio = Some fallbackBio \<rparr>,
       \<lparr> entry_name = ''Alan Turing'', entry_title = None, entry_bio = Some fallbackBio \<rparr>], 2)"
  by code_simp

lemma reconcile_one_prior_entry:
  "reconcile [\<lparr> person_name = ''  ada LOVELACE '', person_email = ''ada@ucsc.edu'' \<rparr>,
              \<lparr> person_name = ''Alan Turing'', person_email = ''alan@ucsc.edu'' \<rparr>]
             [\<lparr> entry_name = ''Ada Lovelace'', entry_title = Some ''Professor'', entry_bio = Some ''Custom bio'' \<rparr>]
   = ([\<lparr> entry_name = ''Ada Lovelace'', entry_title = Some ''Professor'', entry_bio = Some ''Custom bio'' \<rparr>,
       \<lparr> entry_name = ''Alan Turing'', entry_title = None, entry_bio = Some fallbackBio \<rparr>], 1)"
  by code_simp

lemma matched_after_reconcile:
  assumes "p \<in> set roster"
  shows "matchingEntry (fst (reconcile roster bios)) p \<noteq> None"
proof (cases "matchingEntry bios p = None")
  case True
  with assms have "newEntry p \<in> set (fst (reconcile roster bios))"
    by (simp add: reconcile_eq)
  moreover have "normalizedName (entry_name (newEntry p)) = normalizedName (person_name p)"
    by (simp add: newEntry_def)
  ultimately show ?thesis
    by (auto simp add: matchingEntry_def find_None_iff)
next
  case False
  then show ?thesis
    by (auto simp add: matchingEntry_def find_None_iff reconcile_eq)
qed

text \<open>
  Claim C6. Reconciliation is idempotent: a second run with the same instructors list
  on the record that the first run produced returns that record again, with no entry
  appended and no field changed.
\<close>

theorem reconcile_idempotent:
  "reconcile roster (fst (reconcile roster bios)) = (fst (reconcile roster bios), 0)"
proof -
  have "filter (\<lambda>p. matchingEntry (fst (reconcile roster bios)) p = None) roster = []"
    using matched_after_reconcile by (simp add: filter_empty_conv)
  then show ?thesis
    by (simp add: reconcile_eq [of roster "fst (reconcile roster bios)"])
qed

end
